theory Spec2Isabelle
  imports Main
begin

section \<open>Go strings\<close>

text \<open>
  Go strings are byte sequences; they are modelled as \<open>string\<close> (a list of 8-bit
  characters). \<open>HasPrefix\<close>, \<open>TrimPrefix\<close>, \<open>TrimSpace\<close> and \<open>Contains\<close> are the
  functions of Go's package \<open>strings\<close> that the client calls. \<open>TrimSpace\<close> is modelled on
  the ASCII white space (tab, line feed, vertical tab, form feed, carriage return, space);
  Go also trims the multi-byte Unicode spaces, which no statement below depends on.
\<close>

definition HasPrefix :: "string \<Rightarrow> string \<Rightarrow> bool" where
  "HasPrefix s p = (take (length p) s = p)"

definition TrimPrefix :: "string \<Rightarrow> string \<Rightarrow> string" where
  "TrimPrefix s p = (if HasPrefix s p then drop (length p) s else s)"

definition isSpace :: "char \<Rightarrow> bool" where
  "isSpace c = (c = CHR 0x09 \<or> c = CHR 0x0A \<or> c = CHR 0x0B \<or> c = CHR 0x0C
                \<or> c = CHR 0x0D \<or> c = CHR '' '')"

definition TrimSpace :: "string \<Rightarrow> string" where
  "TrimSpace s = rev (dropWhile isSpace (rev (dropWhile isSpace s)))"

fun Contains :: "string \<Rightarrow> string \<Rightarrow> bool" where
  "Contains [] sub = (sub = [])"
| "Contains (c # cs) sub = (HasPrefix (c # cs) sub \<or> Contains cs sub)"

section \<open>Errors\<close>

text \<open>
  Go error values. The sentinels of package \<open>remote\<close>, of \<open>context\<close>, \<open>io\<close> and \<open>bufio\<close>
  are constructors. \<open>Errorf w f args\<close> is \<open>fmt.Errorf(f, w, args...)\<close> for a format \<open>f\<close>
  that starts with \<open>%w\<close>: its \<open>Unwrap\<close> is \<open>w\<close>, and the operands of \<open>%v\<close>, \<open>%d\<close> and
  \<open>%s\<close> only contribute text. \<open>UrlError op url e\<close> is the \<open>*url.Error\<close> that
  \<open>http.Client.Do\<close> returns; its \<open>Unwrap\<close> is \<open>e\<close>.
\<close>

datatype error =
    ErrRemoteNotAvailable
  | ErrConnectionFailed
  | ErrRemoteExecutionFailed
  | Canceled
  | DeadlineExceeded
  | EOF
  | ErrTooLong
  | OtherError string
  | UrlError string string error
  | Errorf error string "fmtarg list"
and fmtarg = ArgV error | ArgD int | ArgS string

text \<open>\<open>errors.Is\<close>: the target is looked for along the \<open>Unwrap\<close> chain.\<close>

fun errorIs :: "error \<Rightarrow> error \<Rightarrow> bool" where
  "errorIs (Errorf w f args) t = (Errorf w f args = t \<or> errorIs w t)"
| "errorIs (UrlError op u e) t = (UrlError op u e = t \<or> errorIs e t)"
| "errorIs e t = (e = t)"

section \<open>The event-stream decoder\<close>

text \<open>
  A \<open>bufio.Scanner\<close> with the line splitter, seen through its interface: the lines it
  has still to return, and the error \<open>Err()\<close> reports once \<open>Scan()\<close> has returned
  false (\<open>None\<close> at a clean end of input). \<open>Scan\<close> returns the next line and the
  advanced scanner, or \<open>None\<close> for false.
\<close>

record scanner =
  tokens :: "string list"
  scanErr :: "error option"

definition Scan :: "scanner \<Rightarrow> (string \<times> scanner) option" where
  "Scan s = (case tokens s of [] \<Rightarrow> None | l # ls \<Rightarrow> Some (l, s\<lparr>tokens := ls\<rparr>))"

definition Err :: "scanner \<Rightarrow> error option" where
  "Err s = scanErr s"

record sseEvent =
  Name :: string
  Data :: string

text \<open>
  The loop of \<open>sseDecoder.next\<close>, with its two local variables \<open>name\<close> and \<open>builder\<close>
  as arguments. It returns the event or the error, and the scanner as the call leaves it.
\<close>

function next_loop :: "string \<Rightarrow> string \<Rightarrow> scanner \<Rightarrow> (error + sseEvent) \<times> scanner" where
  "next_loop name builder s =
     (case Scan s of
        None \<Rightarrow>
          (case Err s of
             Some err \<Rightarrow> (Inl err, s)
           | None \<Rightarrow>
               if length builder > 0 \<or> name \<noteq> []
               then (Inr \<lparr>Name = name, Data = builder\<rparr>, s)
               else (Inl EOF, s))
      | Some (line, s') \<Rightarrow>
          if line = [] then
            (if length builder = 0 \<and> name = [] then next_loop name builder s'
             else (Inr \<lparr>Name = name, Data = builder\<rparr>, s'))
          else if HasPrefix line ''event:'' then
            next_loop (TrimSpace (TrimPrefix line ''event:'')) builder s'
          else if HasPrefix line ''data:'' then
            (let data = TrimSpace (TrimPrefix line ''data:'');
                 builder' = (if length builder > 0 then builder @ [CHR 0x0A] else builder)
             in next_loop name (builder' @ data) s')
          else next_loop name builder s')"
  by pat_completeness auto
termination
  by (relation "measure (\<lambda>(name, builder, s). length (tokens s))")
     (auto simp: Scan_def split: list.splits)

declare next_loop.simps [simp del]

record sseDecoder =
  scanner :: scanner

definition "next" :: "sseDecoder \<Rightarrow> (error + sseEvent) \<times> sseDecoder" where
  "next d = (case next_loop [] [] (scanner d) of (r, s') \<Rightarrow> (r, d\<lparr>scanner := s'\<rparr>))"


text \<open>The scanner every call starts from, given the lines still to come.\<close>

definition decoderOn :: "string list \<Rightarrow> error option \<Rightarrow> sseDecoder" where
  "decoderOn ls e = \<lparr>scanner = \<lparr>tokens = ls, scanErr = e\<rparr>\<rparr>"

lemma next_loop_Nil:
  "next_loop n b \<lparr>tokens = [], scanErr = e\<rparr> =
     (case e of Some err \<Rightarrow> (Inl err, \<lparr>tokens = [], scanErr = e\<rparr>)
      | None \<Rightarrow> if b \<noteq> [] \<or> n \<noteq> [] then (Inr \<lparr>Name = n, Data = b\<rparr>, \<lparr>tokens = [], scanErr = e\<rparr>)
                else (Inl EOF, \<lparr>tokens = [], scanErr = e\<rparr>))"
  by (subst next_loop.simps) (simp add: Scan_def Err_def split: option.splits)

lemma next_loop_blank:
  "next_loop n b \<lparr>tokens = [] # ls, scanErr = e\<rparr> =
     (if b = [] \<and> n = [] then next_loop n b \<lparr>tokens = ls, scanErr = e\<rparr>
      else (Inr \<lparr>Name = n, Data = b\<rparr>, \<lparr>tokens = ls, scanErr = e\<rparr>))"
  by (subst next_loop.simps) (simp add: Scan_def)

lemma next_loop_line:
  "l \<noteq> [] \<Longrightarrow> next_loop n b \<lparr>tokens = l # ls, scanErr = e\<rparr> =
     (if HasPrefix l ''event:'' then
        next_loop (TrimSpace (TrimPrefix l ''event:'')) b \<lparr>tokens = ls, scanErr = e\<rparr>
      else if HasPrefix l ''data:'' then
        next_loop n ((if b \<noteq> [] then b @ [CHR 0x0A] else b) @ TrimSpace (TrimPrefix l ''data:''))
          \<lparr>tokens = ls, scanErr = e\<rparr>
      else next_loop n b \<lparr>tokens = ls, scanErr = e\<rparr>)"
  by (subst next_loop.simps) (simp add: Scan_def Let_def)

lemma next_loop_tokens_le_aux:
  "next_loop n b \<lparr>tokens = ls, scanErr = e\<rparr> = (r, s') \<Longrightarrow> length (tokens s') \<le> length ls"
proof (induction ls arbitrary: n b)
  case Nil
  then show ?case by (auto simp: next_loop_Nil split: option.splits if_splits)
next
  case (Cons l ls)
  show ?case
  proof (cases "l = []")
    case True
    with Cons.prems Cons.IH show ?thesis
      by (fastforce simp: next_loop_blank split: if_splits)
  next
    case False
    with Cons.prems Cons.IH show ?thesis
      by (fastforce simp: next_loop_line split: if_splits)
  qed
qed

text \<open>A call of \<open>next\<close> that returns an event has consumed at least one line.\<close>

lemma next_event_shrinks:
  "next d = (Inr ev, d') \<Longrightarrow> length (tokens (scanner d')) < length (tokens (scanner d))"
proof -
  assume a: "next d = (Inr ev, d')"
  obtain ls e where s: "scanner d = \<lparr>tokens = ls, scanErr = e\<rparr>" by (cases "scanner d") auto
  from a obtain s' where n: "next_loop [] [] (scanner d) = (Inr ev, s')" and d': "d' = d\<lparr>scanner := s'\<rparr>"
    by (auto simp: next_def split: prod.splits)
  show ?thesis
  proof (cases ls)
    case Nil
    with n s show ?thesis by (auto simp: next_loop_Nil split: option.splits)
  next
    case (Cons l ls')
    have "\<exists>n' b'. next_loop n' b' \<lparr>tokens = ls', scanErr = e\<rparr> = (Inr ev, s')"
    proof (cases "l = []")
      case True
      with n s Cons show ?thesis by (auto simp: next_loop_blank)
    next
      case False
      with n s Cons show ?thesis by (auto simp: next_loop_line split: if_splits)
    qed
    then obtain n' b' where "next_loop n' b' \<lparr>tokens = ls', scanErr = e\<rparr> = (Inr ev, s')" by blast
    from next_loop_tokens_le_aux [OF this] s Cons d' show ?thesis by simp
  qed
qed

text \<open>
  The events that successive calls of \<open>next\<close> return, up to the first call that returns
  an error, and that error (\<open>EOF\<close> at a clean end of stream).
\<close>

function drain :: "sseDecoder \<Rightarrow> sseEvent list \<times> error" where
  "drain d =
     (case next d of
        (Inl err, d') \<Rightarrow> ([], err)
      | (Inr ev, d') \<Rightarrow> (case drain d' of (evs, err) \<Rightarrow> (ev # evs, err)))"
  by pat_completeness auto
termination
  by (relation "measure (\<lambda>d. length (tokens (scanner d)))")
     (auto dest: next_event_shrinks [OF sym])

declare drain.simps [simp del]

section \<open>The remote runtime's types and the library functions\<close>

text \<open>
  Modelled from the spec: the types \<open>remote.ExecuteResultPayload\<close>, \<open>remote.RemoteResponse\<close>
  and \<open>remote.RemoteRequest\<close> are declared in the core module, outside this repository.
  The result payload holds an opaque value (here its JSON text, \<open>None\<close> for nil), the
  captured standard output and standard error, a duration in milliseconds and the
  tool-call records (opaque). The response envelope holds an optional result. The
  request holds the opaque execution payload and the streaming flag.
\<close>

record ExecuteResultPayload =
  Value :: "string option"
  Stdout :: string
  Stderr :: string
  DurationMillis :: int
  ToolCalls :: "string list"

record RemoteResponse =
  Result :: "ExecuteResultPayload option"

record RemoteRequest =
  Request :: string
  Stream :: bool

definition zeroPayload :: ExecuteResultPayload where
  "zeroPayload = \<lparr>Value = None, Stdout = [], Stderr = [], DurationMillis = 0, ToolCalls = []\<rparr>"

definition zeroResponse :: RemoteResponse where
  "zeroResponse = \<lparr>Result = None\<rparr>"

text \<open>
  The functions of Go's standard library that the client calls and whose result the model
  does not compute are parameters: JSON encoding and decoding, HMAC-SHA256 (key, then
  message), standard base64 and \<open>url.Parse\<close> (giving the parsed URL's string).
\<close>

record golib =
  jsonMarshal :: "RemoteRequest \<Rightarrow> error + string"
  jsonPayload :: "string \<Rightarrow> error + ExecuteResultPayload"
  jsonResponse :: "string \<Rightarrow> error + RemoteResponse"
  hmacSHA256 :: "string \<Rightarrow> string \<Rightarrow> string"
  base64Std :: "string \<Rightarrow> string"
  urlParse :: "string \<Rightarrow> error + string"

section \<open>Readers and the scanner over a response body\<close>

text \<open>
  An \<open>io.Reader\<close> is the bytes it delivers and the error that ends it (\<open>None\<close> for
  a clean end). \<open>ReadAll\<close> and \<open>LimitReader\<close> are those of package \<open>io\<close>.
\<close>

record reader =
  content :: string
  readErr :: "error option"

definition ReadAll :: "reader \<Rightarrow> string \<times> error option" where
  "ReadAll r = (content r, readErr r)"

definition LimitReader :: "reader \<Rightarrow> nat \<Rightarrow> reader" where
  "LimitReader r n =
     \<lparr>content = take n (content r),
      readErr = (if length (content r) < n then readErr r else None)\<rparr>"

text \<open>
  \<open>bufio.ScanLines\<close> over the bytes of a reader, with the scanner's maximum token size:
  a line ends at a line feed, one trailing carriage return is dropped, a last line with no
  line feed is returned when it is not empty, and pending bytes that fill the buffer with
  no line feed stop the scanner with \<open>ErrTooLong\<close>. The result is the lines and whether
  the scanner stopped that way.
\<close>

definition dropCR :: "string \<Rightarrow> string" where
  "dropCR data = (if data \<noteq> [] \<and> last data = CHR 0x0D then butlast data else data)"

fun scanLines :: "nat \<Rightarrow> string \<Rightarrow> string \<Rightarrow> string list \<times> bool" where
  "scanLines mx cur [] =
     (if cur = [] then ([], False)
      else if length cur \<ge> mx then ([], True)
      else ([dropCR cur], False))"
| "scanLines mx cur (c # cs) =
     (if c = CHR 0x0A then
        (if length cur \<ge> mx then ([], True)
         else (case scanLines mx [] cs of (ls, long) \<Rightarrow> (dropCR cur # ls, long)))
      else scanLines mx (cur @ [c]) cs)"

definition newSSEDecoder :: "reader \<Rightarrow> sseDecoder" where
  "newSSEDecoder r =
     (case scanLines (1024 * 1024) [] (content r) of
        (ls, long) \<Rightarrow> decoderOn ls (if long then Some ErrTooLong else readErr r))"

section \<open>The stream merger\<close>

text \<open>The loop of \<open>readStream\<close>, with the running \<open>result\<close> as an argument.\<close>

function readStream_loop :: "golib \<Rightarrow> sseDecoder \<Rightarrow> ExecuteResultPayload \<Rightarrow> error + ExecuteResultPayload" where
  "readStream_loop lib decoder result =
     (case next decoder of
        (Inl err, decoder') \<Rightarrow>
          if errorIs err EOF then Inr result
          else Inl (Errorf ErrRemoteExecutionFailed ''%w: stream decode: %v'' [ArgV err])
      | (Inr event, decoder') \<Rightarrow>
          if Name event = ''stdout'' then
            readStream_loop lib decoder' (result\<lparr>Stdout := Stdout result @ Data event\<rparr>)
          else if Name event = ''stderr'' then
            readStream_loop lib decoder' (result\<lparr>Stderr := Stderr result @ Data event\<rparr>)
          else if Name event = ''result'' then
            (case jsonPayload lib (Data event) of
               Inr payload \<Rightarrow>
                 (let payload1 = (if Stdout payload = [] then payload\<lparr>Stdout := Stdout result\<rparr> else payload);
                      payload2 = (if Stderr payload1 = [] then payload1\<lparr>Stderr := Stderr result\<rparr> else payload1);
                      payload3 = (if length (ToolCalls payload2) = 0
                                  then payload2\<lparr>ToolCalls := ToolCalls result\<rparr> else payload2)
                  in readStream_loop lib decoder' payload3)
             | Inl err \<Rightarrow> readStream_loop lib decoder' result)
          else if Name event = ''error'' then
            Inl (Errorf ErrRemoteExecutionFailed ''%w: %s'' [ArgS (Data event)])
          else readStream_loop lib decoder' result)"
  by pat_completeness auto
termination
  by (relation "measure (\<lambda>(lib, d, r). length (tokens (scanner d)))")
     (auto dest: next_event_shrinks [OF sym])

declare readStream_loop.simps [simp del]

definition readStream :: "golib \<Rightarrow> reader \<Rightarrow> error + ExecuteResultPayload" where
  "readStream lib body = readStream_loop lib (newSSEDecoder body) zeroPayload"

section \<open>The HTTP client\<close>

text \<open>
  \<open>Config\<close> and \<open>Client\<close> with the fields that decide what is sent and how often; the
  HTTP client, its timeout and TLS setting are part of the world below, and the logger,
  which only observes, is left out. Go's \<open>int\<close> is \<open>int\<close> here: the attempt counter
  runs from 0 to at most \<open>maxRetries\<close>, so it never wraps.
\<close>

record Config =
  Endpoint :: string
  AuthToken :: string
  MaxRetries :: int

record Client =
  endpoint :: string
  authToken :: string
  maxRetries :: int

definition NewClient :: "golib \<Rightarrow> Config \<Rightarrow> error + Client" where
  "NewClient lib cfg =
     (if Endpoint cfg = [] then Inl ErrRemoteNotAvailable
      else case urlParse lib (Endpoint cfg) of
             Inl err \<Rightarrow> Inl err
           | Inr parsed \<Rightarrow>
               (let maxRetries0 = MaxRetries cfg;
                    maxRetries1 = (if maxRetries0 \<le> 0 then 3 else maxRetries0)
                in Inr \<lparr>endpoint = parsed, authToken = AuthToken cfg, maxRetries = maxRetries1\<rparr>))"

text \<open>An outgoing request; \<open>Header.Set\<close> is the update of a map from key to value.\<close>

record httpRequest =
  Method :: string
  URL :: string
  Header :: "string \<rightharpoonup> string"
  ReqBody :: string

record httpResponse =
  StatusCode :: int
  ContentType :: string
  Body :: reader

definition HeaderSet :: "httpRequest \<Rightarrow> string \<Rightarrow> string \<Rightarrow> httpRequest" where
  "HeaderSet req k v = req\<lparr>Header := (Header req)(k \<mapsto> v)\<rparr>"

text \<open>
  \<open>signRequest\<close>, with the formatted current time as an argument: the MAC is written the
  timestamp, a dot and the payload, in this order.
\<close>

definition signature :: "golib \<Rightarrow> string \<Rightarrow> string \<Rightarrow> string \<Rightarrow> string" where
  "signature lib timestamp payload token =
     base64Std lib (hmacSHA256 lib token (timestamp @ ''.'' @ payload))"

definition signRequest :: "golib \<Rightarrow> string \<Rightarrow> httpRequest \<Rightarrow> string \<Rightarrow> string \<Rightarrow> httpRequest" where
  "signRequest lib timestamp req payload token =
     HeaderSet (HeaderSet req ''X-Toolruntime-Timestamp'' timestamp)
       ''X-Toolruntime-Signature'' (signature lib timestamp payload token)"

text \<open>The request \<open>executeRequest\<close> builds and sends.\<close>

definition buildRequest :: "golib \<Rightarrow> Client \<Rightarrow> string \<Rightarrow> string \<Rightarrow> bool \<Rightarrow> httpRequest" where
  "buildRequest lib c timestamp payload stream =
     (let req0 = \<lparr>Method = ''POST'', URL = endpoint c, Header = Map.empty, ReqBody = payload\<rparr>;
          req1 = HeaderSet req0 ''Content-Type'' ''application/json'';
          req2 = (if stream then HeaderSet req1 ''Accept'' ''text/event-stream'' else req1)
      in if authToken c \<noteq> []
         then signRequest lib timestamp
                (HeaderSet req2 ''Authorization'' (''Bearer '' @ authToken c)) payload (authToken c)
         else req2)"

text \<open>
  The world of one \<open>Execute\<close> call, by the number of the attempt (from 0): whether
  building the request fails, the formatted time \<open>signRequest\<close> reads, and what
  \<open>httpClient.Do\<close> returns for the request.
\<close>

record world =
  newRequestErr :: "nat \<Rightarrow> error option"
  now :: "nat \<Rightarrow> string"
  Do :: "nat \<Rightarrow> httpRequest \<Rightarrow> error + httpResponse"

definition executeRequest :: "golib \<Rightarrow> world \<Rightarrow> Client \<Rightarrow> nat \<Rightarrow> string \<Rightarrow> bool \<Rightarrow> error + RemoteResponse" where
  "executeRequest lib w c k payload stream =
     (case newRequestErr w k of
        Some err \<Rightarrow> Inl (Errorf ErrConnectionFailed ''%w: build request: %v'' [ArgV err])
      | None \<Rightarrow>
          (case Do w k (buildRequest lib c (now w k) payload stream) of
             Inl err \<Rightarrow> Inl (Errorf ErrConnectionFailed ''%w: %v'' [ArgV err])
           | Inr resp \<Rightarrow>
               if StatusCode resp \<ge> 500 then
                 (let body = fst (ReadAll (LimitReader (Body resp) 1024))
                  in Inl (Errorf ErrRemoteExecutionFailed ''%w: server error %d: %s''
                            [ArgD (StatusCode resp), ArgS (TrimSpace body)]))
               else if StatusCode resp < 200 \<or> StatusCode resp \<ge> 300 then
                 (let body = fst (ReadAll (LimitReader (Body resp) 1024))
                  in Inl (Errorf ErrRemoteExecutionFailed ''%w: status %d: %s''
                            [ArgD (StatusCode resp), ArgS (TrimSpace body)]))
               else if stream \<and> Contains (ContentType resp) ''text/event-stream'' then
                 (case readStream lib (Body resp) of
                    Inl err \<Rightarrow> Inl err
                  | Inr payloadResult \<Rightarrow> Inr \<lparr>Result = Some payloadResult\<rparr>)
               else
                 (case ReadAll (Body resp) of
                    (body, Some err) \<Rightarrow>
                      Inl (Errorf ErrRemoteExecutionFailed ''%w: read response: %v'' [ArgV err])
                  | (body, None) \<Rightarrow>
                      (case jsonResponse lib body of
                         Inl err \<Rightarrow>
                           Inl (Errorf ErrRemoteExecutionFailed ''%w: decode response: %v'' [ArgV err])
                       | Inr response \<Rightarrow> Inr response))))"

definition isRetryable :: "error option \<Rightarrow> bool" where
  "isRetryable err =
     (case err of
        None \<Rightarrow> False
      | Some e \<Rightarrow> if errorIs e DeadlineExceeded \<or> errorIs e Canceled then False else True)"

text \<open>
  The loop of \<open>doRequest\<close>. \<open>calls\<close> counts the calls of \<open>executeRequest\<close> made so far
  and is returned with the result.
\<close>

function doRequest_loop ::
  "golib \<Rightarrow> world \<Rightarrow> Client \<Rightarrow> string \<Rightarrow> bool \<Rightarrow> int \<Rightarrow> nat \<Rightarrow> (error + RemoteResponse) \<times> nat" where
  "doRequest_loop lib w c payload stream attempt calls =
     (if attempt \<le> maxRetries c then
        (case executeRequest lib w c calls payload stream of
           Inr resp \<Rightarrow> (Inr resp, calls + 1)
         | Inl err \<Rightarrow>
             if \<not> isRetryable (Some err) \<or> attempt = maxRetries c then (Inl err, calls + 1)
             else doRequest_loop lib w c payload stream (attempt + 1) (calls + 1))
      else (Inl (Errorf ErrRemoteExecutionFailed ''%w: retries exhausted'' []), calls))"
  by pat_completeness auto
termination
  by (relation "measure (\<lambda>(lib, w, c, payload, stream, attempt, calls). nat (maxRetries c + 1 - attempt))")
     auto

declare doRequest_loop.simps [simp del]

definition doRequest :: "golib \<Rightarrow> world \<Rightarrow> Client \<Rightarrow> string \<Rightarrow> bool \<Rightarrow> (error + RemoteResponse) \<times> nat" where
  "doRequest lib w c payload stream = doRequest_loop lib w c payload stream 0 0"

text \<open>\<open>Execute\<close> returns the response or the error, and the number of attempts it made.\<close>

definition Execute :: "golib \<Rightarrow> world \<Rightarrow> Client \<Rightarrow> RemoteRequest \<Rightarrow> (error + RemoteResponse) \<times> nat" where
  "Execute lib w c payload =
     (case jsonMarshal lib payload of
        Inl err \<Rightarrow> (Inl (Errorf ErrRemoteExecutionFailed ''%w: marshal request: %v'' [ArgV err]), 0)
      | Inr data \<Rightarrow>
          (case doRequest lib w c data (Stream payload) of
             (Inl err, n) \<Rightarrow> (Inl err, n)
           | (Inr response, n) \<Rightarrow> (Inr response, n)))"

section \<open>Frames of the event stream\<close>

text \<open>
  A frame is a list of non-blank lines; on the wire it is followed by a blank line, and
  the last frame of a stream may lack it. \<open>eventNames\<close> and \<open>dataLines\<close> are the
  trimmed contents of its \<open>event:\<close> and \<open>data:\<close> lines, in order. \<open>Join\<close> is Go's
  \<open>strings.Join\<close>. \<open>frameName\<close> is the last name given (empty when there is none), and
  \<open>frameData\<close> joins with line feeds the data contents from the first non-empty one on.
\<close>

fun Join :: "string list \<Rightarrow> string \<Rightarrow> string" where
  "Join [] sep = []"
| "Join [x] sep = x"
| "Join (x # y # ys) sep = x @ sep @ Join (y # ys) sep"

definition eventNames :: "string list \<Rightarrow> string list" where
  "eventNames f =
     map (\<lambda>l. TrimSpace (TrimPrefix l ''event:'')) (filter (\<lambda>l. HasPrefix l ''event:'') f)"

definition dataLines :: "string list \<Rightarrow> string list" where
  "dataLines f =
     map (\<lambda>l. TrimSpace (TrimPrefix l ''data:'')) (filter (\<lambda>l. HasPrefix l ''data:'') f)"

definition frameName :: "string list \<Rightarrow> string" where
  "frameName f = (if eventNames f = [] then [] else last (eventNames f))"

definition frameData :: "string list \<Rightarrow> string" where
  "frameData f = Join (dropWhile (\<lambda>d. d = []) (dataLines f)) [CHR 0x0A]"

definition frameEvent :: "string list \<Rightarrow> sseEvent" where
  "frameEvent f = \<lparr>Name = frameName f, Data = frameData f\<rparr>"

definition accumulates :: "string list \<Rightarrow> bool" where
  "accumulates f = (frameName f \<noteq> [] \<or> frameData f \<noteq> [])"

text \<open>The name and the buffer after a frame has been read, from any name and buffer.\<close>

definition nameAfter :: "string \<Rightarrow> string list \<Rightarrow> string" where
  "nameAfter n f = (if eventNames f = [] then n else last (eventNames f))"

definition dataAfter :: "string \<Rightarrow> string list \<Rightarrow> string" where
  "dataAfter b f =
     (if b = [] then frameData f else b @ concat (map (\<lambda>d. CHR 0x0A # d) (dataLines f)))"

section \<open>Merging a list of events\<close>

text \<open>
  \<open>mergeStep\<close> is the \<open>switch\<close> of \<open>readStream\<close> on one event, and \<open>mergeEvents\<close>
  runs it over a list of events that ends with the decoder's error; \<open>readStream_loop\<close>
  is \<open>mergeEvents\<close> on what the decoder yields. \<open>backfill\<close> is the payload of a
  \<open>result\<close> event completed from the running result. \<open>testlib\<close> is a library
  instance for the closed examples: its JSON decoder decodes the empty object to the
  zero value and rejects everything else.
\<close>

definition mergeStep :: "golib \<Rightarrow> ExecuteResultPayload \<Rightarrow> sseEvent \<Rightarrow> error + ExecuteResultPayload" where
  "mergeStep lib result event =
     (if Name event = ''stdout'' then Inr (result\<lparr>Stdout := Stdout result @ Data event\<rparr>)
      else if Name event = ''stderr'' then Inr (result\<lparr>Stderr := Stderr result @ Data event\<rparr>)
      else if Name event = ''result'' then
        (case jsonPayload lib (Data event) of
           Inr payload \<Rightarrow>
             Inr (payload\<lparr>Stdout := (if Stdout payload = [] then Stdout result else Stdout payload),
                         Stderr := (if Stderr payload = [] then Stderr result else Stderr payload),
                         ToolCalls := (if ToolCalls payload = [] then ToolCalls result else ToolCalls payload)\<rparr>)
         | Inl err \<Rightarrow> Inr result)
      else if Name event = ''error'' then
        Inl (Errorf ErrRemoteExecutionFailed ''%w: %s'' [ArgS (Data event)])
      else Inr result)"

fun mergeEvents :: "golib \<Rightarrow> sseEvent list \<Rightarrow> error \<Rightarrow> ExecuteResultPayload \<Rightarrow> error + ExecuteResultPayload" where
  "mergeEvents lib [] err result =
     (if errorIs err EOF then Inr result
      else Inl (Errorf ErrRemoteExecutionFailed ''%w: stream decode: %v'' [ArgV err]))"
| "mergeEvents lib (ev # evs) err result =
     (case mergeStep lib result ev of
        Inl e \<Rightarrow> Inl e
      | Inr result' \<Rightarrow> mergeEvents lib evs err result')"

definition backfill :: "ExecuteResultPayload \<Rightarrow> ExecuteResultPayload \<Rightarrow> ExecuteResultPayload" where
  "backfill payload result =
     payload\<lparr>Stdout := (if Stdout payload = [] then Stdout result else Stdout payload),
             Stderr := (if Stderr payload = [] then Stderr result else Stderr payload),
             ToolCalls := (if ToolCalls payload = [] then ToolCalls result else ToolCalls payload)\<rparr>"

definition testlib :: golib where
  "testlib =
     \<lparr>jsonMarshal = (\<lambda>r. Inr (Request r)),
      jsonPayload = (\<lambda>s. if s = ''{}'' then Inr zeroPayload else Inl (OtherError ''invalid JSON'')),
      jsonResponse = (\<lambda>s. if s = ''{}'' then Inr zeroResponse else Inl (OtherError ''invalid JSON'')),
      hmacSHA256 = (\<lambda>k m. k @ m),
      base64Std = (\<lambda>s. s),
      urlParse = (\<lambda>s. Inr s)\<rparr>"

text \<open>\<open>wrapsSentinel\<close>: an \<open>Errorf\<close> around one of the two sentinels of the client.\<close>

fun wrapsSentinel :: "error \<Rightarrow> bool" where
  "wrapsSentinel (Errorf w f args) = (w = ErrConnectionFailed \<or> w = ErrRemoteExecutionFailed)"
| "wrapsSentinel e = False"

section \<open>Inputs of the closed examples\<close>

text \<open>
  Worlds, clients and a request for the closed examples: a server that answers every
  attempt with status 500 and an empty body, and a context that is canceled during the
  first attempt and stays so, for which \<open>httpClient.Do\<close> returns the \<open>*url.Error\<close> around
  \<open>context.Canceled\<close> at every attempt.
\<close>

definition world500 :: world where
  "world500 =
     \<lparr>newRequestErr = (\<lambda>k. None), now = (\<lambda>k. ''2024-01-01T00:00:00Z''),
      Do = (\<lambda>k req. Inr \<lparr>StatusCode = 500, ContentType = [],
                             Body = \<lparr>content = [], readErr = None\<rparr>\<rparr>)\<rparr>"

definition worldCanceled :: world where
  "worldCanceled =
     \<lparr>newRequestErr = (\<lambda>k. None), now = (\<lambda>k. ''2024-01-01T00:00:00Z''),
      Do = (\<lambda>k req. Inl (UrlError ''Post'' (URL req) Canceled))\<rparr>"

definition clientWith :: "string \<Rightarrow> int \<Rightarrow> Client" where
  "clientWith token n = \<lparr>endpoint = ''http://x'', authToken = token, maxRetries = n\<rparr>"

definition request1 :: RemoteRequest where
  "request1 = \<lparr>Request = ''{}'', Stream = False\<rparr>"

definition error500 :: error where
  "error500 = Errorf ErrRemoteExecutionFailed ''%w: server error %d: %s'' [ArgD 500, ArgS []]"

definition errorCanceled :: error where
  "errorCanceled = Errorf ErrConnectionFailed ''%w: %v'' [ArgV (UrlError ''Post'' ''http://x'' Canceled)]"

section \<open>Lemmas on the decoder\<close>

lemma prefix_excl: "HasPrefix l ''event:'' \<Longrightarrow> \<not> HasPrefix l ''data:''"
  by (cases l) (auto simp: HasPrefix_def)

lemma Join_Cons: "Join (x # xs) sep = x @ concat (map (\<lambda>d. sep @ d) xs)"
  by (induction xs arbitrary: x) auto

lemma next_loop_frame:
  "[] \<notin> set f \<Longrightarrow>
   next_loop n b \<lparr>tokens = f @ rest, scanErr = e\<rparr> =
   next_loop (nameAfter n f) (dataAfter b f) \<lparr>tokens = rest, scanErr = e\<rparr>"
proof (induction f arbitrary: n b)
  case Nil
  show ?case by (simp add: nameAfter_def dataAfter_def eventNames_def dataLines_def frameData_def)
next
  case (Cons l f)
  then have l: "l \<noteq> []" and f: "[] \<notin> set f" by auto
  show ?case
  proof (cases "HasPrefix l ''event:''")
    case True
    then have nd: "\<not> HasPrefix l ''data:''" by (rule prefix_excl)
    have "nameAfter n (l # f) = nameAfter (TrimSpace (TrimPrefix l ''event:'')) f"
      using True by (simp add: nameAfter_def eventNames_def)
    moreover have "dataAfter b (l # f) = dataAfter b f"
      using nd by (simp add: dataAfter_def dataLines_def frameData_def)
    ultimately show ?thesis
      using True l Cons.IH [OF f] by (simp add: next_loop_line)
  next
    case False
    note ne = False
    show ?thesis
    proof (cases "HasPrefix l ''data:''")
      case True
      let ?d = "TrimSpace (TrimPrefix l ''data:'')"
      have n: "nameAfter n (l # f) = nameAfter n f"
        using ne by (simp add: nameAfter_def eventNames_def)
      have d: "dataAfter b (l # f) = dataAfter ((if b \<noteq> [] then b @ [CHR 0x0A] else b) @ ?d) f"
        using True by (auto simp: dataAfter_def dataLines_def frameData_def Join_Cons)
      show ?thesis
        using True ne l n d Cons.IH [OF f] by (simp add: next_loop_line)
    next
      case False
      have "nameAfter n (l # f) = nameAfter n f"
        using ne by (simp add: nameAfter_def eventNames_def)
      moreover have "dataAfter b (l # f) = dataAfter b f"
        using False by (simp add: dataAfter_def dataLines_def frameData_def)
      ultimately show ?thesis
        using False ne l Cons.IH [OF f] by (simp add: next_loop_line)
    qed
  qed
qed

lemma nameAfter_fresh: "nameAfter [] f = frameName f"
  by (simp add: nameAfter_def frameName_def)

lemma dataAfter_fresh: "dataAfter [] f = frameData f"
  by (simp add: dataAfter_def)

lemma next_frame_blank:
  assumes "[] \<notin> set f"
  shows "next (decoderOn (f @ [] # rest) e) =
     (if accumulates f then (Inr (frameEvent f), decoderOn rest e)
      else next (decoderOn rest e))"
  using assms
  by (auto simp: next_def decoderOn_def next_loop_frame next_loop_blank nameAfter_fresh
      dataAfter_fresh accumulates_def frameEvent_def)

lemma next_frame_end:
  assumes "[] \<notin> set f"
  shows "next (decoderOn f None) =
     (if accumulates f then (Inr (frameEvent f), decoderOn [] None)
      else (Inl EOF, decoderOn [] None))"
  using assms next_loop_frame [of f "[]" "[]" "[]" None]
  by (auto simp: next_def decoderOn_def next_loop_Nil nameAfter_fresh
      dataAfter_fresh accumulates_def frameEvent_def)

lemma drain_end: "drain (decoderOn [] None) = ([], EOF)"
  by (subst drain.simps) (simp add: next_def decoderOn_def next_loop_Nil)

lemma drain_last:
  assumes "[] \<notin> set p"
  shows "drain (decoderOn p None) = (map frameEvent (filter accumulates [p]), EOF)"
  using assms by (subst drain.simps) (simp add: next_frame_end drain_end)

lemmas frame_defs =
  eventNames_def dataLines_def frameName_def frameData_def frameEvent_def accumulates_def
  HasPrefix_def TrimPrefix_def TrimSpace_def isSpace_def

lemma drain_frames:
  assumes "\<forall>f\<in>set fs. [] \<notin> set f" and "[] \<notin> set p"
  shows "drain (decoderOn (concat (map (\<lambda>f. f @ [[]]) fs) @ p) None) =
         (map frameEvent (filter accumulates (fs @ [p])), EOF)"
  using assms
proof (induction fs)
  case Nil
  then show ?case by (simp add: drain_last)
next
  case (Cons f fs)
  let ?rest = "concat (map (\<lambda>f. f @ [[]]) fs) @ p"
  from Cons have f: "[] \<notin> set f"
    and IH: "drain (decoderOn ?rest None) = (map frameEvent (filter accumulates (fs @ [p])), EOF)"
    by auto
  have n: "next (decoderOn (f @ [] # ?rest) None) =
     (if accumulates f then (Inr (frameEvent f), decoderOn ?rest None)
      else next (decoderOn ?rest None))"
    by (rule next_frame_blank [OF f])
  show ?case
  proof (cases "accumulates f")
    case True
    have "drain (decoderOn (f @ [] # ?rest) None) =
          (frameEvent f # map frameEvent (filter accumulates (fs @ [p])), EOF)"
      by (subst drain.simps) (simp add: n True IH)
    with True show ?thesis by simp
  next
    case False
    have "drain (decoderOn (f @ [] # ?rest) None) = drain (decoderOn ?rest None)"
      by (subst drain.simps, subst (2) drain.simps) (simp add: n False)
    with False IH show ?thesis by simp
  qed
qed

section \<open>Properties of the decoder\<close>

text \<open>
  C6. The frames \<open>fs\<close> of a stream, each followed by its blank line, and a last frame
  \<open>p\<close> without one, are decoded by successive calls of \<open>next\<close> into the events of the
  frames that accumulate a name or data, in the order of the frames; the unterminated
  frame \<open>p\<close> gives a last event when it has accumulated something, and then, or directly
  when nothing is pending, the end of the stream is signalled.
\<close>

theorem decoder_events_in_frame_order:
  assumes "\<forall>f\<in>set fs. [] \<notin> set f" and "[] \<notin> set p"
  shows "drain (decoderOn (concat (map (\<lambda>f. f @ [[]]) fs) @ p) None) =
         (map frameEvent (filter accumulates (fs @ [p])), EOF)"
  using assms by (rule drain_frames)

theorem decoder_events_in_frame_order_witness:
  "drain (decoderOn [''event: stdout'', ''data: hello'', [], ''event: result'', ''data: {}''] None) =
     ([\<lparr>Name = ''stdout'', Data = ''hello''\<rparr>, \<lparr>Name = ''result'', Data = ''{}''\<rparr>], EOF)"
  using decoder_events_in_frame_order
    [of "[[''event: stdout'', ''data: hello'']]" "[''event: result'', ''data: {}'']"]
  by (simp add: frame_defs)

text \<open>
  C7, as the code has it. A frame of non-blank lines followed by a blank line: the
  contents of its \<open>data:\<close> lines, trimmed of the prefix and of surrounding white space,
  are appended to the buffer, with a line feed before a content only when the buffer is
  not empty, so the data is the join of the contents from the first non-empty one on;
  lines with neither prefix leave name and data as they are; the blank line gives the
  event of the name and the data, unless both are empty, in which case it gives no event
  and decoding goes on with the lines after it.
\<close>

theorem frame_flushed_at_blank_line:
  assumes "[] \<notin> set f"
  shows "next (decoderOn (f @ [] # rest) e) =
     (if frameName f = [] \<and> frameData f = [] then next (decoderOn rest e)
      else (Inr \<lparr>Name = frameName f, Data = frameData f\<rparr>, decoderOn rest e))"
  using next_frame_blank [OF assms, of rest e]
  by (simp add: accumulates_def frameEvent_def)

theorem frame_flushed_at_blank_line_witness:
  "next (decoderOn [''data: a'', ''retry: 5'', ''data:  b '', [], ''data: c''] None) =
     (Inr \<lparr>Name = [], Data = [CHR ''a'', CHR 0x0A, CHR ''b'']\<rparr>, decoderOn [''data: c''] None)"
  using frame_flushed_at_blank_line
    [of "[''data: a'', ''retry: 5'', ''data:  b '']" "[''data: c'']" None]
  by (simp add: frame_defs)

text \<open>
  C7 as stated fails: of the two \<open>data:\<close> lines of this frame the first has an empty
  content, no line feed is put between them, and the event's data is \<open>b\<close>, not the two
  contents joined by a line feed.
\<close>

theorem data_separator_counterexample:
  "fst (next (decoderOn [''data:'', ''data: b'', []] None)) = Inr \<lparr>Name = [], Data = ''b''\<rparr>
   \<and> Join (dataLines [''data:'', ''data: b'']) [CHR 0x0A] = [CHR 0x0A, CHR ''b'']
   \<and> ''b'' \<noteq> Join (dataLines [''data:'', ''data: b'']) [CHR 0x0A]"
  by (simp add: next_def decoderOn_def next_loop_line next_loop_blank frame_defs)

text \<open>
  C10. A frame with a non-empty name and no \<open>data:\<close> line is emitted as an event of that
  name with empty data, at its blank line and also at the end of the stream.
\<close>

theorem name_only_frame_emitted:
  assumes "[] \<notin> set f" and "dataLines f = []" and "frameName f \<noteq> []"
  shows "next (decoderOn (f @ [] # rest) e) =
           (Inr \<lparr>Name = frameName f, Data = []\<rparr>, decoderOn rest e)
         \<and> next (decoderOn f None) = (Inr \<lparr>Name = frameName f, Data = []\<rparr>, decoderOn [] None)"
  using next_frame_blank [OF assms(1), of rest e] next_frame_end [OF assms(1)] assms(2,3)
  by (simp add: accumulates_def frameEvent_def frameData_def)

theorem name_only_frame_emitted_witness:
  "next (decoderOn [''event: ping'', [], ''data: x''] None) =
     (Inr \<lparr>Name = ''ping'', Data = []\<rparr>, decoderOn [''data: x''] None)
   \<and> next (decoderOn [''event: ping''] None) =
     (Inr \<lparr>Name = ''ping'', Data = []\<rparr>, decoderOn [] None)"
  using name_only_frame_emitted [of "[''event: ping'']" "[''data: x'']" None]
  by (simp add: frame_defs)

section \<open>Properties of the merger\<close>

lemma readStream_loop_Inl:
  "next d = (Inl err, d') \<Longrightarrow>
   readStream_loop lib d r =
     (if errorIs err EOF then Inr r
      else Inl (Errorf ErrRemoteExecutionFailed ''%w: stream decode: %v'' [ArgV err]))"
  by (subst readStream_loop.simps) simp

lemma readStream_loop_Inr:
  "next d = (Inr ev, d') \<Longrightarrow>
   readStream_loop lib d r =
     (case mergeStep lib r ev of Inl e \<Rightarrow> Inl e | Inr r' \<Rightarrow> readStream_loop lib d' r')"
  by (subst readStream_loop.simps)
     (auto simp: mergeStep_def Let_def split: sum.splits)

lemma drain_Inl: "next d = (Inl err, d') \<Longrightarrow> drain d = ([], err)"
  by (subst drain.simps) simp

lemma drain_Inr: "next d = (Inr ev, d') \<Longrightarrow> drain d = (ev # fst (drain d'), snd (drain d'))"
  by (subst drain.simps) (simp split: prod.splits)

lemma readStream_loop_drain:
  "readStream_loop lib d r = mergeEvents lib (fst (drain d)) (snd (drain d)) r"
proof (induction "length (tokens (scanner d))" arbitrary: d r rule: less_induct)
  case less
  obtain x d' where n: "next d = (x, d')" by (cases "next d")
  show ?case
  proof (cases x)
    case (Inl err)
    with n show ?thesis by (simp add: readStream_loop_Inl drain_Inl)
  next
    case (Inr ev)
    with n have n': "next d = (Inr ev, d')" by simp
    from next_event_shrinks [OF n'] less
    have IH: "\<And>r'. readStream_loop lib d' r' = mergeEvents lib (fst (drain d')) (snd (drain d')) r'"
      by blast
    show ?thesis
      by (simp add: readStream_loop_Inr [OF n'] drain_Inr [OF n'] IH split: sum.splits)
  qed
qed


text \<open>
  C5. A \<open>result\<close> event whose data parses replaces the running result, except that
  its standard output, standard error and tool calls, where empty, are taken from the
  running result; and the events \<open>stdout a\<close>, \<open>stdout b\<close>, \<open>result\<close> with a payload of
  empty standard output merge into that payload with standard output \<open>ab\<close>.
\<close>

theorem result_event_backfills:
  "(next d = (Inr \<lparr>Name = ''result'', Data = j\<rparr>, d') \<and> jsonPayload lib j = Inr p
      \<longrightarrow> readStream_loop lib d acc = readStream_loop lib d' (backfill p acc))
   \<and> (drain d2 = ([\<lparr>Name = ''stdout'', Data = ''a''\<rparr>, \<lparr>Name = ''stdout'', Data = ''b''\<rparr>,
                    \<lparr>Name = ''result'', Data = j2\<rparr>], EOF)
        \<and> jsonPayload lib j2 = Inr p2 \<and> Stdout p2 = []
      \<longrightarrow> readStream_loop lib d2 zeroPayload = Inr (p2\<lparr>Stdout := ''ab''\<rparr>))"
proof (intro conjI impI)
  assume a: "next d = (Inr \<lparr>Name = ''result'', Data = j\<rparr>, d') \<and> jsonPayload lib j = Inr p"
  then show "readStream_loop lib d acc = readStream_loop lib d' (backfill p acc)"
    by (simp add: readStream_loop_Inr [of d _ d'] mergeStep_def backfill_def)
next
  assume a: "drain d2 = ([\<lparr>Name = ''stdout'', Data = ''a''\<rparr>, \<lparr>Name = ''stdout'', Data = ''b''\<rparr>,
                    \<lparr>Name = ''result'', Data = j2\<rparr>], EOF)
        \<and> jsonPayload lib j2 = Inr p2 \<and> Stdout p2 = []"
  then have "readStream_loop lib d2 zeroPayload =
      Inr (p2\<lparr>Stdout := ''ab'', Stderr := Stderr p2, ToolCalls := ToolCalls p2\<rparr>)"
    by (simp add: readStream_loop_drain mergeStep_def zeroPayload_def)
  then show "readStream_loop lib d2 zeroPayload = Inr (p2\<lparr>Stdout := ''ab''\<rparr>)"
    by simp
qed

lemma drain_abr:
  "drain (decoderOn [''event: stdout'', ''data: a'', [], ''event: stdout'', ''data: b'', [],
                     ''event: result'', ''data: {}'', []] None) =
     ([\<lparr>Name = ''stdout'', Data = ''a''\<rparr>, \<lparr>Name = ''stdout'', Data = ''b''\<rparr>,
       \<lparr>Name = ''result'', Data = ''{}''\<rparr>], EOF)"
  using drain_frames [of "[[''event: stdout'', ''data: a''], [''event: stdout'', ''data: b''],
                          [''event: result'', ''data: {}'']]" "[]"]
  by (simp add: frame_defs)

lemma next_result:
  "next (decoderOn [''event: result'', ''data: {}'', []] None) =
     (Inr \<lparr>Name = ''result'', Data = ''{}''\<rparr>, decoderOn [] None)"
  using next_frame_blank [of "[''event: result'', ''data: {}'']" "[]" None]
  by (simp add: frame_defs)

lemma readStream_loop_end: "readStream_loop lib (decoderOn [] None) r = Inr r"
  by (simp add: readStream_loop_Inl [of _ EOF "decoderOn [] None"] next_def decoderOn_def next_loop_Nil)

lemma testlib_json:
  "jsonPayload testlib ''{}'' = Inr zeroPayload"
  "jsonPayload testlib ''{oops'' = Inl (OtherError ''invalid JSON'')"
  by (simp_all add: testlib_def)

theorem result_event_backfills_witness:
  "readStream_loop testlib (decoderOn [''event: result'', ''data: {}'', []] None)
       (zeroPayload\<lparr>Stderr := ''e''\<rparr>) = Inr (zeroPayload\<lparr>Stderr := ''e''\<rparr>)
   \<and> readStream_loop testlib
       (decoderOn [''event: stdout'', ''data: a'', [], ''event: stdout'', ''data: b'', [],
                   ''event: result'', ''data: {}'', []] None) zeroPayload
     = Inr (zeroPayload\<lparr>Stdout := ''ab''\<rparr>)"
  using result_event_backfills
    [of "decoderOn [''event: result'', ''data: {}'', []] None" "''{}''" "decoderOn [] None"
        testlib zeroPayload "zeroPayload\<lparr>Stderr := ''e''\<rparr>"
        "decoderOn [''event: stdout'', ''data: a'', [], ''event: stdout'', ''data: b'', [],
                   ''event: result'', ''data: {}'', []] None" "''{}''" zeroPayload]
  by (simp add: drain_abr next_result testlib_json readStream_loop_end)
     (simp add: zeroPayload_def backfill_def)






section \<open>Properties of the retry loop and of the request\<close>

lemma doRequest_loop_done:
  "\<not> attempt \<le> maxRetries c \<Longrightarrow>
   doRequest_loop lib w c payload stream attempt calls =
     (Inl (Errorf ErrRemoteExecutionFailed ''%w: retries exhausted'' []), calls)"
  by (subst doRequest_loop.simps) simp


lemma doRequest_loop_stop:
  "attempt \<le> maxRetries c \<Longrightarrow> executeRequest lib w c calls payload stream = Inl err \<Longrightarrow>
   \<not> isRetryable (Some err) \<or> attempt = maxRetries c \<Longrightarrow>
   doRequest_loop lib w c payload stream attempt calls = (Inl err, calls + 1)"
  by (subst doRequest_loop.simps) auto

lemma doRequest_loop_retry:
  "attempt < maxRetries c \<Longrightarrow> executeRequest lib w c calls payload stream = Inl err \<Longrightarrow>
   isRetryable (Some err) \<Longrightarrow>
   doRequest_loop lib w c payload stream attempt calls =
   doRequest_loop lib w c payload stream (attempt + 1) (calls + 1)"
  by (subst doRequest_loop.simps) auto

lemma doRequest_loop_all_fail:
  assumes "attempt \<le> maxRetries c"
    and "\<forall>k. calls \<le> k \<and> k \<le> calls + nat (maxRetries c - attempt) \<longrightarrow>
           (\<exists>err. executeRequest lib w c k payload stream = Inl err \<and> isRetryable (Some err))"
  shows "doRequest_loop lib w c payload stream attempt calls =
           (executeRequest lib w c (calls + nat (maxRetries c - attempt)) payload stream,
            calls + nat (maxRetries c - attempt) + 1)"
  using assms
proof (induction "nat (maxRetries c - attempt)" arbitrary: attempt calls)
  case 0
  then have eq: "attempt = maxRetries c" by simp
  from 0 obtain err where e: "executeRequest lib w c calls payload stream = Inl err"
    by (metis le_add1 order_refl)
  show ?case using eq e doRequest_loop_stop [of attempt c lib w calls payload stream err]
    by simp
next
  case (Suc n)
  then have lt: "attempt < maxRetries c" by simp
  from Suc.prems(2) obtain err where e: "executeRequest lib w c calls payload stream = Inl err"
    and r: "isRetryable (Some err)"
    by (metis le_add1 order_refl)
  have n: "n = nat (maxRetries c - (attempt + 1))" using Suc.hyps(2) by simp
  have le: "attempt + 1 \<le> maxRetries c" using lt by simp
  have all: "\<forall>k. calls + 1 \<le> k \<and> k \<le> calls + 1 + nat (maxRetries c - (attempt + 1)) \<longrightarrow>
           (\<exists>err. executeRequest lib w c k payload stream = Inl err \<and> isRetryable (Some err))"
    using Suc.prems(2) lt by (auto simp: nat_diff_distrib)
  have idx: "nat (maxRetries c - attempt) = Suc (nat (maxRetries c - (attempt + 1)))"
    using lt by (simp add: nat_diff_distrib)
  have "doRequest_loop lib w c payload stream attempt calls =
        doRequest_loop lib w c payload stream (attempt + 1) (calls + 1)"
    by (rule doRequest_loop_retry [OF lt e r])
  also have "\<dots> = (executeRequest lib w c (calls + 1 + nat (maxRetries c - (attempt + 1))) payload stream,
            calls + 1 + nat (maxRetries c - (attempt + 1)) + 1)"
    by (rule Suc.hyps(1) [OF n le all])
  finally show ?case by (simp add: idx)
qed


text \<open>
  Every error \<open>executeRequest\<close> returns is an \<open>Errorf\<close> around one of the two
  sentinels \<open>ErrConnectionFailed\<close> and \<open>ErrRemoteExecutionFailed\<close>, with the cause
  formatted as text: \<open>isRetryable\<close> is true of every one of them, whatever the cause.
\<close>

lemma wrapsSentinel_retryable: "wrapsSentinel e \<Longrightarrow> isRetryable (Some e)"
  by (cases e) (auto simp: isRetryable_def)

lemma mergeEvents_error:
  "mergeEvents lib evs err r = Inl e \<Longrightarrow> wrapsSentinel e"
  by (induction evs arbitrary: r)
     (auto simp: mergeStep_def split: if_splits sum.splits)

lemma readStream_error: "readStream lib body = Inl e \<Longrightarrow> wrapsSentinel e"
  by (simp add: readStream_def readStream_loop_drain mergeEvents_error)

lemma executeRequest_error:
  "executeRequest lib w c k payload stream = Inl e \<Longrightarrow> wrapsSentinel e"
  by (auto simp: executeRequest_def Let_def
      split: option.splits sum.splits if_splits prod.splits
      dest!: readStream_error)

lemma executeRequest_error_retryable:
  "executeRequest lib w c k payload stream = Inl e \<Longrightarrow> isRetryable (Some e)"
  by (rule wrapsSentinel_retryable [OF executeRequest_error])

lemma executeRequest_world500:
  "executeRequest testlib world500 c k payload stream = Inl error500"
  by (simp add: executeRequest_def world500_def error500_def ReadAll_def LimitReader_def TrimSpace_def)

lemma executeRequest_worldCanceled:
  "executeRequest testlib worldCanceled (clientWith [] n) k payload stream = Inl errorCanceled"
  by (simp add: executeRequest_def worldCanceled_def errorCanceled_def buildRequest_def
      clientWith_def HeaderSet_def Let_def)

lemma isRetryable_error500: "isRetryable (Some error500)"
  by (simp add: isRetryable_def error500_def)

lemma isRetryable_errorCanceled: "isRetryable (Some errorCanceled)"
  by (simp add: isRetryable_def errorCanceled_def)

lemma Execute_doRequest:
  "jsonMarshal lib req = Inr data \<Longrightarrow> Execute lib w c req = doRequest lib w c data (Stream req)"
  by (cases "doRequest lib w c data (Stream req)") (auto simp: Execute_def split: sum.splits)

lemma doRequest_all_fail:
  assumes "0 \<le> maxRetries c"
    and "\<forall>k\<le>nat (maxRetries c). \<exists>err. executeRequest lib w c k payload stream = Inl err
            \<and> isRetryable (Some err)"
  shows "doRequest lib w c payload stream =
           (executeRequest lib w c (nat (maxRetries c)) payload stream, nat (maxRetries c) + 1)"
  using doRequest_loop_all_fail [of 0 c 0 lib w payload stream] assms
  by (simp add: doRequest_def)

lemma testlib_marshal: "jsonMarshal testlib request1 = Inr ''{}''"
  by (simp add: testlib_def request1_def)

text \<open>
  C1, as the code has it. When every attempt fails with a retryable error, \<open>Execute\<close>
  makes \<open>maxRetries + 1\<close> attempts and returns the error of the last one as it is.
\<close>

theorem last_attempt_error_returned:
  assumes "jsonMarshal lib req = Inr data" and "0 \<le> maxRetries c"
    and "\<forall>k\<le>nat (maxRetries c). \<exists>err. executeRequest lib w c k data (Stream req) = Inl err
            \<and> isRetryable (Some err)"
  shows "\<exists>err. executeRequest lib w c (nat (maxRetries c)) data (Stream req) = Inl err
           \<and> Execute lib w c req = (Inl err, nat (maxRetries c) + 1)"
proof -
  from assms(3) obtain err where
    e: "executeRequest lib w c (nat (maxRetries c)) data (Stream req) = Inl err" by blast
  have "Execute lib w c req = (Inl err, nat (maxRetries c) + 1)"
    using Execute_doRequest [OF assms(1)] doRequest_all_fail [OF assms(2,3)] e by simp
  with e show ?thesis by blast
qed

lemma request1_Stream: "Stream request1 = False"
  by (simp add: request1_def)

lemma maxRetries_clientWith: "maxRetries (clientWith token n) = n"
  by (simp add: clientWith_def)

lemma Execute_world500:
  assumes "0 \<le> n"
  shows "Execute testlib world500 (clientWith [] n) request1 = (Inl error500, nat n + 1)"
proof -
  have "doRequest testlib world500 (clientWith [] n) ''{}'' False =
          (executeRequest testlib world500 (clientWith [] n) (nat n) ''{}'' False, nat n + 1)"
    using doRequest_all_fail [of "clientWith [] n" testlib world500 "''{}''" False] assms
    by (simp add: maxRetries_clientWith executeRequest_world500 isRetryable_error500)
  then show ?thesis
    by (simp add: Execute_doRequest [OF testlib_marshal] request1_Stream executeRequest_world500)
qed

lemma Execute_worldCanceled:
  assumes "0 \<le> n"
  shows "Execute testlib worldCanceled (clientWith [] n) request1 = (Inl errorCanceled, nat n + 1)"
proof -
  have "doRequest testlib worldCanceled (clientWith [] n) ''{}'' False =
          (executeRequest testlib worldCanceled (clientWith [] n) (nat n) ''{}'' False, nat n + 1)"
    using doRequest_all_fail [of "clientWith [] n" testlib worldCanceled "''{}''" False] assms
    by (simp add: maxRetries_clientWith executeRequest_worldCanceled isRetryable_errorCanceled)
  then show ?thesis
    by (simp add: Execute_doRequest [OF testlib_marshal] request1_Stream
        executeRequest_worldCanceled)
qed

lemma NewClient_testlib:
  "NewClient testlib \<lparr>Endpoint = ''http://x'', AuthToken = token, MaxRetries = n\<rparr> =
     Inr (clientWith token (if n \<le> 0 then 3 else n))"
  by (simp add: NewClient_def testlib_def clientWith_def Let_def)

theorem last_attempt_error_returned_witness:
  "Execute testlib world500 (clientWith [] 2) request1 = (Inl error500, 3)"
  using last_attempt_error_returned [of testlib request1 "''{}''" "clientWith [] 2" world500]
  by (simp add: testlib_marshal request1_Stream executeRequest_world500 isRetryable_error500
      maxRetries_clientWith)

text \<open>
  C1 as stated fails: with one retry and a server that always answers 500, \<open>Execute\<close>
  returns the second attempt's own error, not a "retries exhausted" error around it.
\<close>

theorem retries_exhausted_counterexample:
  "Execute testlib world500 (clientWith [] 1) request1 =
     (executeRequest testlib world500 (clientWith [] 1) 1 ''{}'' False, 2)
   \<and> executeRequest testlib world500 (clientWith [] 1) 1 ''{}'' False = Inl error500
   \<and> error500 \<noteq> Errorf ErrRemoteExecutionFailed ''%w: retries exhausted'' []"
  using Execute_world500 [of 1]
  by (simp add: executeRequest_world500) (simp add: error500_def)

text \<open>
  C2 on the code: the context is canceled during the first attempt. \<open>executeRequest\<close>
  formats the cancellation with \<open>%v\<close> under \<open>ErrConnectionFailed\<close>, so \<open>errors.Is\<close> no
  longer finds \<open>context.Canceled\<close>, \<open>isRetryable\<close> answers true, and the client of
  three retries makes four attempts and returns the connection error.
\<close>

theorem canceled_attempt_is_retried:
  "NewClient testlib \<lparr>Endpoint = ''http://x'', AuthToken = [], MaxRetries = 3\<rparr> = Inr (clientWith [] 3)
   \<and> Execute testlib worldCanceled (clientWith [] 3) request1 = (Inl errorCanceled, 4)
   \<and> errorCanceled = Errorf ErrConnectionFailed ''%w: %v'' [ArgV (UrlError ''Post'' ''http://x'' Canceled)]
   \<and> errorIs (UrlError ''Post'' ''http://x'' Canceled) Canceled
   \<and> \<not> errorIs errorCanceled Canceled
   \<and> isRetryable (Some errorCanceled)"
  using Execute_worldCanceled [of 3]
  by (simp add: NewClient_testlib isRetryable_errorCanceled) (simp add: errorCanceled_def)




text \<open>
  C4, as the code has it. The request carries \<open>Authorization: Bearer <token>\<close>, the
  timestamp header and the signature header exactly when the token is not empty; the two
  signing headers are named \<open>X-Toolruntime-Timestamp\<close> and \<open>X-Toolruntime-Signature\<close>.
\<close>

theorem auth_headers_iff_token:
  "Header (buildRequest lib c timestamp payload stream) ''Authorization'' =
     (if authToken c = [] then None else Some (''Bearer '' @ authToken c))
   \<and> Header (buildRequest lib c timestamp payload stream) ''X-Toolruntime-Timestamp'' =
     (if authToken c = [] then None else Some timestamp)
   \<and> Header (buildRequest lib c timestamp payload stream) ''X-Toolruntime-Signature'' =
     (if authToken c = [] then None else Some (signature lib timestamp payload (authToken c)))"
  by (simp add: buildRequest_def signRequest_def HeaderSet_def Let_def)

text \<open>
  C4 as stated fails: with a token configured the request has the \<open>Authorization\<close>
  header but no header named \<open>X-Timestamp\<close> or \<open>X-Signature\<close>.
\<close>

theorem header_names_counterexample:
  "Header (buildRequest testlib (clientWith ''token'' 3) ''t'' ''{}'' False) ''Authorization''
     = Some ''Bearer token''
   \<and> Header (buildRequest testlib (clientWith ''token'' 3) ''t'' ''{}'' False) ''X-Timestamp'' = None
   \<and> Header (buildRequest testlib (clientWith ''token'' 3) ''t'' ''{}'' False) ''X-Signature'' = None"
  by (simp add: buildRequest_def signRequest_def HeaderSet_def Let_def clientWith_def)

text \<open>
  The signature is a function of the token, the timestamp and the payload, and the
  message authenticated is the timestamp, a dot and the payload.
\<close>

lemma signature_message:
  "signature lib timestamp payload token =
     base64Std lib (hmacSHA256 lib token (timestamp @ ''.'' @ payload))"
  by (simp add: signature_def)

end
